theory Spec2Isabelle
  imports Main "HOL-Library.Sublist"
begin

section \<open>Python values and exceptions\<close>

text \<open>
  The mapping options read by \<open>awx/sso/backends.py\<close> are untyped Python values: a rule
  may be \<open>None\<close>, a boolean, a string or a list. \<open>pyval\<close> holds the shapes the code
  distinguishes; \<open>truthy\<close> is Python's \<open>bool(x)\<close> (and \<open>not x\<close> its negation).
\<close>

datatype pyval =
    PNone
  | PBool bool
  | PInt int
  | PStr string
  | PList "pyval list"
  | PDict "(string \<times> pyval) list"

fun truthy :: "pyval \<Rightarrow> bool" where
  "truthy PNone = False"
| "truthy (PBool b) = b"
| "truthy (PInt i) = (i \<noteq> 0)"
| "truthy (PStr s) = (s \<noteq> [])"
| "truthy (PList xs) = (xs \<noteq> [])"
| "truthy (PDict kvs) = (kvs \<noteq> [])"

text \<open>
  \<open>TypeError\<close> is what \<open>for x in opts\<close> raises on a value that is not iterable.
  \<open>ExternalError msg\<close> stands for an exception (an instance of \<open>Exception\<close>) raised by
  an external protocol client or base class, with its message.
\<close>

datatype error = TypeError | ExternalError string

text \<open>\<open>for x in v\<close>: the items a Python value yields, or \<open>TypeError\<close>.\<close>

fun py_iter :: "pyval \<Rightarrow> error + pyval list" where
  "py_iter (PList xs) = Inr xs"
| "py_iter (PDict kvs) = Inr (map (\<lambda>kv. PStr (fst kv)) kvs)"
| "py_iter (PStr s) = Inr (map (\<lambda>c. PStr [c]) s)"
| "py_iter PNone = Inl TypeError"
| "py_iter (PBool b) = Inl TypeError"
| "py_iter (PInt i) = Inl TypeError"

text \<open>\<open>d.get(key, default)\<close>, the key's entry given as an option.\<close>

definition dict_get :: "'a option \<Rightarrow> 'a \<Rightarrow> 'a" where
  "dict_get entry dflt = (case entry of None \<Rightarrow> dflt | Some v \<Rightarrow> v)"

section \<open>Directory settings and the directory session\<close>

type_synonym user = nat

text \<open>
  An entry of \<open>ORGANIZATION_MAP\<close> or \<open>TEAM_MAP\<close> is a dict; each field below is one of
  the keys the code reads, \<open>None\<close> when the key is missing.
\<close>

record map_opts =
  opt_organization :: "string option"
  opt_remove :: "pyval option"
  opt_admins :: "pyval option"
  opt_remove_admins :: "pyval option"
  opt_users :: "pyval option"
  opt_remove_users :: "pyval option"

text \<open>
  The attributes of the settings object the code reads. An attribute read with
  \<open>getattr(obj, name, default)\<close> is an option (\<open>None\<close>: the attribute is not set).
  The two maps are dicts, given as the list \<open>items()\<close> returns.
\<close>

record 'k ldap_settings =
  SERVER_URI :: pyval
  CONNECTION_OPTIONS :: "('k \<rightharpoonup> pyval) option"
  ORGANIZATION_MAP :: "(string \<times> map_opts) list option"
  TEAM_MAP :: "(string \<times> map_opts) list option"

text \<open>
  \<open>ldap_user\<close>: the session's distinguished name, the group-membership snapshot
  (\<open>ldap_user._get_groups().is_member_of\<close>) and the two maps of
  \<open>ldap_user.backend.settings\<close>. The snapshot is fixed during a call: the prefetch
  \<open>get_group_dns()\<close> at the start of \<open>on_populate_user\<close> only fills it.
\<close>

record ldap_user =
  dn :: string
  is_member_of :: "string \<Rightarrow> bool"
  backend_ORGANIZATION_MAP :: "(string \<times> map_opts) list option"
  backend_TEAM_MAP :: "(string \<times> map_opts) list option"

section \<open>Group synchronisation\<close>

text \<open>The loop \<open>for group_dn in opts\<close> of \<open>_update_m2m_from_groups\<close>, with its flag.\<close>

fun for_group_dn :: "ldap_user \<Rightarrow> pyval list \<Rightarrow> bool \<Rightarrow> bool" where
  "for_group_dn ldap_user [] should_add = should_add"
| "for_group_dn ldap_user (PStr group_dn # rest) should_add =
     for_group_dn ldap_user rest (if is_member_of ldap_user group_dn then True else should_add)"
| "for_group_dn ldap_user (other # rest) should_add = for_group_dn ldap_user rest should_add"

text \<open>
  The value of \<open>should_add\<close> when \<open>_update_m2m_from_groups\<close> reaches \<open>if should_add\<close>
  (\<open>opts\<close> is not \<open>None\<close> there).
\<close>

definition should_add :: "ldap_user \<Rightarrow> pyval \<Rightarrow> error + bool" where
  "should_add ldap_user opts =
     (if \<not> truthy opts then Inr False
      else if opts = PBool True then Inr True
      else case py_iter (case opts of PStr s \<Rightarrow> PList [opts] | _ \<Rightarrow> opts) of
             Inl e \<Rightarrow> Inl e
           | Inr group_dns \<Rightarrow> Inr (for_group_dn ldap_user group_dns False))"

text \<open>
  \<open>_update_m2m_from_groups(user, ldap_user, rel, opts, remove)\<close>; \<open>rel\<close> is the set of
  members of one role, returned updated.
\<close>

definition update_m2m_from_groups ::
  "user \<Rightarrow> ldap_user \<Rightarrow> user set \<Rightarrow> pyval \<Rightarrow> bool \<Rightarrow> error + user set" where
  "update_m2m_from_groups user ldap_user rel opts remove =
     (if opts = PNone then Inr rel
      else case should_add ldap_user opts of
             Inl e \<Rightarrow> Inl e
           | Inr add \<Rightarrow>
               Inr (if add then insert user rel
                    else if remove then rel - {user}
                    else rel))"

subsection \<open>The entity store\<close>

record org_row =
  admin_role_members :: "user set"
  member_role_members :: "user set"

text \<open>
  Organizations are keyed by name, teams by name and organization; \<open>profile_ldap_dn\<close>
  is \<open>user.profile.ldap_dn\<close> and \<open>profile_saves\<close> lists the calls of \<open>profile.save()\<close>.
\<close>

record db =
  organizations :: "string \<rightharpoonup> org_row"
  teams :: "string \<times> string \<rightharpoonup> user set"
  profile_ldap_dn :: "user \<Rightarrow> string"
  profile_saves :: "user list"

text \<open>
  Modelled from the spec: \<open>Organization.objects.get_or_create\<close> and
  \<open>Team.objects.get_or_create\<close> (the models are not part of this file). An entity
  referenced by the mapping and not yet existing is created, with empty role
  membership sets; an existing one is fetched.
\<close>

definition Organization_get_or_create :: "string \<Rightarrow> db \<Rightarrow> org_row \<times> db" where
  "Organization_get_or_create name s =
     (case organizations s name of
        Some org \<Rightarrow> (org, s)
      | None \<Rightarrow>
          (let org = \<lparr>admin_role_members = {}, member_role_members = {}\<rparr>
           in (org, s\<lparr>organizations := (organizations s)(name \<mapsto> org)\<rparr>)))"

definition Team_get_or_create :: "string \<Rightarrow> string \<Rightarrow> db \<Rightarrow> user set \<times> db" where
  "Team_get_or_create name org_name s =
     (case teams s (name, org_name) of
        Some members \<Rightarrow> (members, s)
      | None \<Rightarrow> ({}, s\<lparr>teams := (teams s)((name, org_name) \<mapsto> {})\<rparr>))"

subsection \<open>\<open>on_populate_user\<close>\<close>

text \<open>The three flags of an organization entry, as \<open>on_populate_user\<close> computes them.\<close>

definition remove_flag :: "map_opts \<Rightarrow> bool" where
  "remove_flag org_opts = truthy (dict_get (opt_remove org_opts) (PBool True))"

definition remove_admins_flag :: "map_opts \<Rightarrow> bool" where
  "remove_admins_flag org_opts =
     truthy (dict_get (opt_remove_admins org_opts) (PBool (remove_flag org_opts)))"

definition remove_users_flag :: "map_opts \<Rightarrow> bool" where
  "remove_users_flag org_opts =
     truthy (dict_get (opt_remove_users org_opts) (PBool (remove_flag org_opts)))"

text \<open>
  A loop over the items of a dict that stops at the first exception. An exception ends
  the call: \<open>Inl\<close> carries no state, and what had been written before it is not
  described.
\<close>

fun for_items :: "('e \<Rightarrow> 's \<Rightarrow> error + 's) \<Rightarrow> 'e list \<Rightarrow> 's \<Rightarrow> error + 's" where
  "for_items body [] s = Inr s"
| "for_items body (e # es) s =
     (case body e s of Inl err \<Rightarrow> Inl err | Inr s' \<Rightarrow> for_items body es s')"

text \<open>The body of \<open>for org_name, org_opts in org_map.items()\<close>.\<close>

definition org_body :: "user \<Rightarrow> ldap_user \<Rightarrow> string \<times> map_opts \<Rightarrow> db \<Rightarrow> error + db" where
  "org_body user ldap_user item s =
     (let org_name = fst item; org_opts = snd item;
          (org, s1) = Organization_get_or_create org_name s;
          admins_opts = dict_get (opt_admins org_opts) PNone
      in case update_m2m_from_groups user ldap_user (admin_role_members org) admins_opts
                (remove_admins_flag org_opts) of
           Inl e \<Rightarrow> Inl e
         | Inr admins \<Rightarrow>
             (let users_opts = dict_get (opt_users org_opts) PNone
              in case update_m2m_from_groups user ldap_user (member_role_members org) users_opts
                        (remove_users_flag org_opts) of
                   Inl e \<Rightarrow> Inl e
                 | Inr members \<Rightarrow>
                     Inr (s1\<lparr>organizations := (organizations s1)(org_name \<mapsto>
                            \<lparr>admin_role_members = admins, member_role_members = members\<rparr>)\<rparr>)))"

text \<open>The body of \<open>for team_name, team_opts in team_map.items()\<close>.\<close>

definition team_body :: "user \<Rightarrow> ldap_user \<Rightarrow> string \<times> map_opts \<Rightarrow> db \<Rightarrow> error + db" where
  "team_body user ldap_user item s =
     (let team_name = fst item; team_opts = snd item
      in case opt_organization team_opts of
           None \<Rightarrow> Inr s
         | Some org_name \<Rightarrow>
             (let (org, s1) = Organization_get_or_create org_name s;
                  (team, s2) = Team_get_or_create team_name org_name s1;
                  users_opts = dict_get (opt_users team_opts) PNone;
                  remove = truthy (dict_get (opt_remove team_opts) (PBool True))
              in case update_m2m_from_groups user ldap_user team users_opts remove of
                   Inl e \<Rightarrow> Inl e
                 | Inr members \<Rightarrow>
                     Inr (s2\<lparr>teams := (teams s2)((team_name, org_name) \<mapsto> members)\<rparr>)))"

text \<open>The last block of \<open>on_populate_user\<close>: store the session's DN in the profile.\<close>

definition update_profile :: "user \<Rightarrow> ldap_user \<Rightarrow> db \<Rightarrow> db" where
  "update_profile user ldap_user s =
     (if profile_ldap_dn s user \<noteq> dn ldap_user
      then s\<lparr>profile_ldap_dn := (profile_ldap_dn s)(user := dn ldap_user),
              profile_saves := profile_saves s @ [user]\<rparr>
      else s)"

definition on_populate_user :: "user \<Rightarrow> ldap_user \<Rightarrow> db \<Rightarrow> error + db" where
  "on_populate_user user ldap_user s =
     (let org_map = dict_get (backend_ORGANIZATION_MAP ldap_user) []
      in case for_items (org_body user ldap_user) org_map s of
           Inl e \<Rightarrow> Inl e
         | Inr s1 \<Rightarrow>
             (let team_map = dict_get (backend_TEAM_MAP ldap_user) []
              in case for_items (team_body user ldap_user) team_map s1 of
                   Inl e \<Rightarrow> Inl e
                 | Inr s2 \<Rightarrow> Inr (update_profile user ldap_user s2)))"

section \<open>Directory settings object and its cache\<close>

text \<open>
  \<open>LDAPSettings.__init__\<close>. \<open>base\<close> is the object as the base class's constructor
  leaves it (the composed configuration); \<open>OPT_NETWORK_TIMEOUT\<close> is the key
  \<open>ldap.OPT_NETWORK_TIMEOUT\<close> of the directory library.
\<close>

definition LDAPSettings_init :: "'k \<Rightarrow> 'k ldap_settings \<Rightarrow> 'k ldap_settings" where
  "LDAPSettings_init OPT_NETWORK_TIMEOUT base =
     (if dict_get (CONNECTION_OPTIONS base) Map.empty OPT_NETWORK_TIMEOUT = None
      then (let options = dict_get (CONNECTION_OPTIONS base) Map.empty
            in base\<lparr>CONNECTION_OPTIONS := Some (options(OPT_NETWORK_TIMEOUT \<mapsto> PInt 30))\<rparr>)
      else base)"

text \<open>The backend instance: \<open>self_settings\<close> is the attribute \<open>self._settings\<close>.\<close>

record 'k ldap_backend =
  self_settings :: "'k ldap_settings option"

definition settings_prefix :: string where
  "settings_prefix = ''AUTH_LDAP_''"

text \<open>
  \<open>_on_setting_changed(self, sender, **kwargs)\<close>; \<open>setting\<close> is the entry of the key
  \<open>'setting'\<close> in \<open>kwargs\<close>, and \<open>prefix p s\<close> is \<open>s.startswith(p)\<close>.
\<close>

definition on_setting_changed :: "'k ldap_backend \<Rightarrow> string option \<Rightarrow> 'k ldap_backend" where
  "on_setting_changed self setting =
     (if prefix settings_prefix (dict_get setting [])
      then self\<lparr>self_settings := None\<rparr>
      else self)"

text \<open>
  \<open>_get_settings\<close>, the getter of the property \<open>settings\<close>; \<open>BaseLDAPSettings p\<close> is
  what the base class's constructor composes for the prefix \<open>p\<close> when it is called.
\<close>

definition get_settings ::
  "'k \<Rightarrow> (string \<Rightarrow> 'k ldap_settings) \<Rightarrow> 'k ldap_backend
     \<Rightarrow> 'k ldap_settings \<times> 'k ldap_backend" where
  "get_settings OPT_NETWORK_TIMEOUT BaseLDAPSettings self =
     (case self_settings self of
        None \<Rightarrow>
          (let st = LDAPSettings_init OPT_NETWORK_TIMEOUT (BaseLDAPSettings settings_prefix)
           in (st, self\<lparr>self_settings := Some st\<rparr>))
      | Some st \<Rightarrow> (st, self))"

section \<open>Authentication backends\<close>

text \<open>
  What a call does beyond returning: consulting the licence (\<open>feature_enabled(name)\<close>),
  calling the external protocol client or the base class (\<open>ExternalCall\<close>), and
  writing to the log. Every backend function returns its result (\<open>Inl\<close>: the
  exception it raises) with the list of these events, in order.
\<close>

datatype event =
    FeatureEnabled string
  | ExternalCall
  | LogError string
  | LogException string
  | LogDebug string

fun message :: "error \<Rightarrow> string" where
  "message (ExternalError msg) = msg"
| "message TypeError = []"

subsection \<open>Directory\<close>

definition ldap_authenticate ::
  "'k \<Rightarrow> (string \<Rightarrow> 'k ldap_settings) \<Rightarrow> (string \<Rightarrow> bool)
     \<Rightarrow> (string \<Rightarrow> string \<Rightarrow> error + 'p option)
     \<Rightarrow> 'k ldap_backend \<Rightarrow> string \<Rightarrow> string
     \<Rightarrow> ((error + 'p option) \<times> event list) \<times> 'k ldap_backend" where
  "ldap_authenticate OPT_NETWORK_TIMEOUT BaseLDAPSettings feature_enabled super_authenticate
       self username password =
     (let (settings, self1) = get_settings OPT_NETWORK_TIMEOUT BaseLDAPSettings self
      in if \<not> truthy (SERVER_URI settings) then ((Inr None, []), self1)
         else if \<not> feature_enabled ''ldap''
         then ((Inr None,
                [FeatureEnabled ''ldap'',
                 LogError ''Unable to authenticate, license does not support LDAP authentication'']),
               self1)
         else (case super_authenticate username password of
                 Inl e \<Rightarrow>
                   ((Inr None,
                     [FeatureEnabled ''ldap'', ExternalCall,
                      LogException ''Encountered an error authenticating to LDAP'']), self1)
               | Inr r \<Rightarrow> ((Inr r, [FeatureEnabled ''ldap'', ExternalCall]), self1)))"

definition ldap_get_user ::
  "'k \<Rightarrow> (string \<Rightarrow> 'k ldap_settings) \<Rightarrow> (string \<Rightarrow> bool)
     \<Rightarrow> (user \<Rightarrow> error + 'p option)
     \<Rightarrow> 'k ldap_backend \<Rightarrow> user
     \<Rightarrow> ((error + 'p option) \<times> event list) \<times> 'k ldap_backend" where
  "ldap_get_user OPT_NETWORK_TIMEOUT BaseLDAPSettings feature_enabled super_get_user
       self user_id =
     (let (settings, self1) = get_settings OPT_NETWORK_TIMEOUT BaseLDAPSettings self
      in if \<not> truthy (SERVER_URI settings) then ((Inr None, []), self1)
         else if \<not> feature_enabled ''ldap''
         then ((Inr None,
                [FeatureEnabled ''ldap'',
                 LogError ''Unable to get_user, license does not support LDAP authentication'']),
               self1)
         else ((super_get_user user_id, [FeatureEnabled ''ldap'', ExternalCall]), self1))"

subsection \<open>RADIUS, TACACS+ and SAML\<close>

text \<open>The attributes of \<open>django_settings\<close> these backends read.\<close>

record django_settings =
  RADIUS_SERVER :: pyval
  TACACSPLUS_HOST :: pyval
  TACACSPLUS_PORT :: pyval
  TACACSPLUS_SECRET :: pyval
  TACACSPLUS_SESSION_TIMEOUT :: pyval
  TACACSPLUS_AUTH_PROTOCOL :: pyval
  SOCIAL_AUTH_SAML_SP_ENTITY_ID :: pyval
  SOCIAL_AUTH_SAML_SP_PUBLIC_CERT :: pyval
  SOCIAL_AUTH_SAML_SP_PRIVATE_KEY :: pyval
  SOCIAL_AUTH_SAML_ORG_INFO :: pyval
  SOCIAL_AUTH_SAML_TECHNICAL_CONTACT :: pyval
  SOCIAL_AUTH_SAML_SUPPORT_CONTACT :: pyval
  SOCIAL_AUTH_SAML_ENABLED_IDPS :: pyval

definition radius_authenticate ::
  "django_settings \<Rightarrow> (string \<Rightarrow> bool) \<Rightarrow> (string \<Rightarrow> string \<Rightarrow> error + 'p option)
     \<Rightarrow> string \<Rightarrow> string \<Rightarrow> (error + 'p option) \<times> event list" where
  "radius_authenticate django_settings feature_enabled super_authenticate username password =
     (if \<not> truthy (RADIUS_SERVER django_settings) then (Inr None, [])
      else if \<not> feature_enabled ''enterprise_auth''
      then (Inr None,
            [FeatureEnabled ''enterprise_auth'',
             LogError ''Unable to authenticate, license does not support RADIUS authentication''])
      else (super_authenticate username password,
            [FeatureEnabled ''enterprise_auth'', ExternalCall]))"

definition radius_get_user ::
  "django_settings \<Rightarrow> (string \<Rightarrow> bool) \<Rightarrow> (user \<Rightarrow> error + 'p option)
     \<Rightarrow> user \<Rightarrow> (error + 'p option) \<times> event list" where
  "radius_get_user django_settings feature_enabled super_get_user user_id =
     (if \<not> truthy (RADIUS_SERVER django_settings) then (Inr None, [])
      else if \<not> feature_enabled ''enterprise_auth''
      then (Inr None,
            [FeatureEnabled ''enterprise_auth'',
             LogError ''Unable to get_user, license does not support RADIUS authentication''])
      else (super_get_user user_id, [FeatureEnabled ''enterprise_auth'', ExternalCall]))"

text \<open>
  The rows of the local user table, with their primary keys. \<open>u_unusable_password\<close>
  records that \<open>set_unusable_password()\<close> has been called and saved.
\<close>

record user_row =
  u_username :: string
  u_is_superuser :: bool
  u_unusable_password :: bool

type_synonym user_table = "(user \<times> user_row) list"

text \<open>
  Modelled from the spec: \<open>User.objects.get\<close> and \<open>User.objects.get_or_create\<close> (the
  user model is not part of this file). A principal is found by its key or by its unique
  name; one that does not exist is provisioned under a fresh key, with the defaults given.
\<close>

definition User_get :: "user \<Rightarrow> user_table \<Rightarrow> (user \<times> user_row) option" where
  "User_get pk users = find (\<lambda>r. fst r = pk) users"

definition User_get_or_create ::
  "string \<Rightarrow> bool \<Rightarrow> user_table \<Rightarrow> ((user \<times> user_row) \<times> bool) \<times> user_table" where
  "User_get_or_create name superuser users =
     (case find (\<lambda>r. u_username (snd r) = name) users of
        Some r \<Rightarrow> ((r, False), users)
      | None \<Rightarrow>
          (let r = (Suc (fold max (map fst users) 0),
                    \<lparr>u_username = name, u_is_superuser = superuser,
                     u_unusable_password = False\<rparr>)
           in ((r, True), users @ [r])))"

text \<open>\<open>user.set_unusable_password(); user.save()\<close>.\<close>

definition set_unusable_password_and_save :: "user \<Rightarrow> user_table \<Rightarrow> user_table" where
  "set_unusable_password_and_save pk users =
     map (\<lambda>r. if fst r = pk then (fst r, (snd r)\<lparr>u_unusable_password := True\<rparr>) else r) users"

text \<open>\<open>TACACSPlusBackend._get_or_set_user\<close>.\<close>

definition get_or_set_user ::
  "string \<Rightarrow> string option \<Rightarrow> user_table \<Rightarrow> ((user \<times> user_row) \<times> event list) \<times> user_table" where
  "get_or_set_user username password users =
     (let ((user, created), users1) = User_get_or_create username False users;
          log = (if created then [LogDebug (''Created TACACS+ user '' @ username)] else [])
      in if password \<noteq> None
         then (((fst user, (snd user)\<lparr>u_unusable_password := True\<rparr>), log),
               set_unusable_password_and_save (fst user) users1)
         else ((user, log), users1))"

text \<open>
  \<open>TACACSPlusBackend.authenticate\<close>. \<open>TACACSClient_authenticate\<close> is the body of the
  \<open>try\<close> block: the client built from host, port, secret and session timeout,
  authenticating the name and password with the protocol selected; it gives
  \<open>auth.valid\<close>, or the exception raised.
\<close>

definition tacacs_authenticate ::
  "django_settings \<Rightarrow> (string \<Rightarrow> bool)
     \<Rightarrow> (pyval \<Rightarrow> pyval \<Rightarrow> pyval \<Rightarrow> pyval \<Rightarrow> pyval \<Rightarrow> string \<Rightarrow> string \<Rightarrow> error + bool)
     \<Rightarrow> user_table \<Rightarrow> string \<Rightarrow> string
     \<Rightarrow> ((error + (user \<times> user_row) option) \<times> event list) \<times> user_table" where
  "tacacs_authenticate django_settings feature_enabled TACACSClient_authenticate users
       username password =
     (if \<not> truthy (TACACSPLUS_HOST django_settings) then ((Inr None, []), users)
      else if \<not> feature_enabled ''enterprise_auth''
      then ((Inr None,
             [FeatureEnabled ''enterprise_auth'',
              LogError ''Unable to authenticate, license does not support TACACS+ authentication'']),
            users)
      else (case TACACSClient_authenticate
                   (TACACSPLUS_HOST django_settings) (TACACSPLUS_PORT django_settings)
                   (TACACSPLUS_SECRET django_settings)
                   (TACACSPLUS_SESSION_TIMEOUT django_settings)
                   (TACACSPLUS_AUTH_PROTOCOL django_settings) username password of
              Inl e \<Rightarrow>
                ((Inr None,
                  [FeatureEnabled ''enterprise_auth'', ExternalCall,
                   LogException (''TACACS+ Authentication Error: '' @ message e)]), users)
            | Inr valid \<Rightarrow>
                if valid
                then (let ((user, log), users1) = get_or_set_user username (Some password) users
                      in ((Inr (Some user),
                           [FeatureEnabled ''enterprise_auth'', ExternalCall] @ log), users1))
                else ((Inr None, [FeatureEnabled ''enterprise_auth'', ExternalCall]), users)))"

text \<open>\<open>TACACSPlusBackend.get_user\<close>: the user table is read, never the client.\<close>

definition tacacs_get_user ::
  "django_settings \<Rightarrow> (string \<Rightarrow> bool) \<Rightarrow> user_table \<Rightarrow> user
     \<Rightarrow> (error + (user \<times> user_row) option) \<times> event list" where
  "tacacs_get_user django_settings feature_enabled users user_id =
     (if \<not> truthy (TACACSPLUS_HOST django_settings) then (Inr None, [])
      else if \<not> feature_enabled ''enterprise_auth''
      then (Inr None,
            [FeatureEnabled ''enterprise_auth'',
             LogError ''Unable to get user, license does not support TACACS+ authentication''])
      else (case User_get user_id users of
              Some user \<Rightarrow> (Inr (Some user), [FeatureEnabled ''enterprise_auth''])
            | None \<Rightarrow> (Inr None, [FeatureEnabled ''enterprise_auth''])))"

text \<open>The configuration check of \<open>SAMLAuth\<close>: \<open>all([...])\<close> over seven settings.\<close>

definition saml_configured :: "django_settings \<Rightarrow> bool" where
  "saml_configured django_settings =
     list_all truthy
       [SOCIAL_AUTH_SAML_SP_ENTITY_ID django_settings,
        SOCIAL_AUTH_SAML_SP_PUBLIC_CERT django_settings,
        SOCIAL_AUTH_SAML_SP_PRIVATE_KEY django_settings,
        SOCIAL_AUTH_SAML_ORG_INFO django_settings,
        SOCIAL_AUTH_SAML_TECHNICAL_CONTACT django_settings,
        SOCIAL_AUTH_SAML_SUPPORT_CONTACT django_settings,
        SOCIAL_AUTH_SAML_ENABLED_IDPS django_settings]"

definition saml_authenticate ::
  "django_settings \<Rightarrow> (string \<Rightarrow> bool) \<Rightarrow> ('a \<Rightarrow> error + 'p option)
     \<Rightarrow> 'a \<Rightarrow> (error + 'p option) \<times> event list" where
  "saml_authenticate django_settings feature_enabled super_authenticate args =
     (if \<not> saml_configured django_settings then (Inr None, [])
      else if \<not> feature_enabled ''enterprise_auth''
      then (Inr None,
            [FeatureEnabled ''enterprise_auth'',
             LogError ''Unable to authenticate, license does not support SAML authentication''])
      else (super_authenticate args, [FeatureEnabled ''enterprise_auth'', ExternalCall]))"

definition saml_get_user ::
  "django_settings \<Rightarrow> (string \<Rightarrow> bool) \<Rightarrow> (user \<Rightarrow> error + 'p option)
     \<Rightarrow> user \<Rightarrow> (error + 'p option) \<times> event list" where
  "saml_get_user django_settings feature_enabled super_get_user user_id =
     (if \<not> saml_configured django_settings then (Inr None, [])
      else if \<not> feature_enabled ''enterprise_auth''
      then (Inr None,
            [FeatureEnabled ''enterprise_auth'',
             LogError ''Unable to get_user, license does not support SAML authentication''])
      else (super_get_user user_id, [FeatureEnabled ''enterprise_auth'', ExternalCall]))"

section \<open>Example data\<close>

text \<open>
  A mapping with one organization and one team, a session that is a member of the
  administrators' group only, and an empty store, before and after a synchronisation.
\<close>

definition example_org_opts :: map_opts where
  "example_org_opts = \<lparr>opt_organization = None, opt_remove = None,
     opt_admins = Some (PList [PInt 7, PStr ''cn=admins,dc=x'']), opt_remove_admins = None,
     opt_users = Some (PBool True), opt_remove_users = None\<rparr>"

definition example_team_opts :: map_opts where
  "example_team_opts = \<lparr>opt_organization = Some ''Engineering'', opt_remove = None,
     opt_admins = None, opt_remove_admins = None,
     opt_users = Some (PStr ''cn=qa,dc=x''), opt_remove_users = None\<rparr>"

definition example_ldap_user :: ldap_user where
  "example_ldap_user = \<lparr>dn = ''uid=alice,dc=x'',
     is_member_of = (\<lambda>g. g = ''cn=admins,dc=x''),
     backend_ORGANIZATION_MAP = Some [(''Engineering'', example_org_opts)],
     backend_TEAM_MAP = Some [(''QA'', example_team_opts)]\<rparr>"

definition example_db :: db where
  "example_db = \<lparr>organizations = Map.empty, teams = Map.empty,
     profile_ldap_dn = (\<lambda>u. []), profile_saves = []\<rparr>"

definition example_db_synced :: db where
  "example_db_synced = \<lparr>
     organizations = [''Engineering'' \<mapsto> \<lparr>admin_role_members = {1}, member_role_members = {1}\<rparr>],
     teams = [(''QA'', ''Engineering'') \<mapsto> {}],
     profile_ldap_dn = (\<lambda>u. [])(1 := ''uid=alice,dc=x''), profile_saves = [1]\<rparr>"

text \<open>
  An entry that sets \<open>remove\<close> to false, a session that is a member of no group, and a
  store in which user 1 is still an administrator of the organization, before and after
  the first organization entry has been processed for that session.
\<close>

definition example_keep_opts :: map_opts where
  "example_keep_opts = \<lparr>opt_organization = None, opt_remove = Some (PBool False),
     opt_admins = Some (PStr ''cn=admins,dc=x''), opt_remove_admins = None,
     opt_users = None, opt_remove_users = Some (PInt 1)\<rparr>"

definition example_outsider :: ldap_user where
  "example_outsider = \<lparr>dn = ''uid=alice,dc=x'', is_member_of = (\<lambda>g. False),
     backend_ORGANIZATION_MAP = Some [(''Engineering'', example_org_opts)],
     backend_TEAM_MAP = None\<rparr>"

definition example_stale_db :: db where
  "example_stale_db = \<lparr>
     organizations = [''Engineering'' \<mapsto> \<lparr>admin_role_members = {1, 2}, member_role_members = {2}\<rparr>],
     teams = Map.empty, profile_ldap_dn = (\<lambda>u. []), profile_saves = []\<rparr>"

definition example_stale_db_synced :: db where
  "example_stale_db_synced = \<lparr>
     organizations = [''Engineering'' \<mapsto> \<lparr>admin_role_members = {2}, member_role_members = {1, 2}\<rparr>],
     teams = Map.empty, profile_ldap_dn = (\<lambda>u. []), profile_saves = []\<rparr>"

text \<open>
  Settings objects as the base constructor composes them (with and without a network
  timeout, with and without a server), configured and unconfigured process settings,
  a user table, and external clients that raise.
\<close>

definition example_base :: "string \<Rightarrow> int ldap_settings" where
  "example_base p = \<lparr>SERVER_URI = PStr ''ldap://ldap.example.com'',
     CONNECTION_OPTIONS = Some [8 \<mapsto> PInt 0],
     ORGANIZATION_MAP = Some [(''Engineering'', example_org_opts)],
     TEAM_MAP = Some [(''QA'', example_team_opts)]\<rparr>"

definition example_base_with_timeout :: "int ldap_settings" where
  "example_base_with_timeout = \<lparr>SERVER_URI = PStr ''ldap://ldap.example.com'',
     CONNECTION_OPTIONS = Some [20485 \<mapsto> PInt 5],
     ORGANIZATION_MAP = Some [], TEAM_MAP = Some []\<rparr>"

definition example_base_unconfigured :: "string \<Rightarrow> int ldap_settings" where
  "example_base_unconfigured p = \<lparr>SERVER_URI = PStr [],
     CONNECTION_OPTIONS = Some Map.empty, ORGANIZATION_MAP = Some [], TEAM_MAP = Some []\<rparr>"


definition example_configured :: django_settings where
  "example_configured = \<lparr>RADIUS_SERVER = PStr ''radius.example.com'',
     TACACSPLUS_HOST = PStr ''tacacs.example.com'', TACACSPLUS_PORT = PInt 49,
     TACACSPLUS_SECRET = PStr ''secret'', TACACSPLUS_SESSION_TIMEOUT = PInt 5,
     TACACSPLUS_AUTH_PROTOCOL = PStr ''ascii'',
     SOCIAL_AUTH_SAML_SP_ENTITY_ID = PStr ''https://tower.example.com'',
     SOCIAL_AUTH_SAML_SP_PUBLIC_CERT = PStr ''CERT'',
     SOCIAL_AUTH_SAML_SP_PRIVATE_KEY = PStr ''KEY'',
     SOCIAL_AUTH_SAML_ORG_INFO = PDict [(''en-US'', PDict [(''name'', PStr ''example'')])],
     SOCIAL_AUTH_SAML_TECHNICAL_CONTACT = PDict [(''givenName'', PStr ''Tech'')],
     SOCIAL_AUTH_SAML_SUPPORT_CONTACT = PDict [(''givenName'', PStr ''Support'')],
     SOCIAL_AUTH_SAML_ENABLED_IDPS = PDict [(''idp'', PDict [(''url'', PStr ''https://idp.example.com'')])]\<rparr>"

definition example_unconfigured :: django_settings where
  "example_unconfigured = \<lparr>RADIUS_SERVER = PStr [],
     TACACSPLUS_HOST = PStr [], TACACSPLUS_PORT = PInt 49,
     TACACSPLUS_SECRET = PStr [], TACACSPLUS_SESSION_TIMEOUT = PInt 5,
     TACACSPLUS_AUTH_PROTOCOL = PStr ''ascii'',
     SOCIAL_AUTH_SAML_SP_ENTITY_ID = PStr [],
     SOCIAL_AUTH_SAML_SP_PUBLIC_CERT = PStr [],
     SOCIAL_AUTH_SAML_SP_PRIVATE_KEY = PStr [],
     SOCIAL_AUTH_SAML_ORG_INFO = PDict [],
     SOCIAL_AUTH_SAML_TECHNICAL_CONTACT = PDict [],
     SOCIAL_AUTH_SAML_SUPPORT_CONTACT = PDict [],
     SOCIAL_AUTH_SAML_ENABLED_IDPS = PDict []\<rparr>"

definition example_users :: user_table where
  "example_users = [(1, \<lparr>u_username = ''alice'', u_is_superuser = False, u_unusable_password = True\<rparr>),
                    (2, \<lparr>u_username = ''bob'', u_is_superuser = True, u_unusable_password = False\<rparr>)]"

definition timed_out :: "string \<Rightarrow> string \<Rightarrow> error + user option" where
  "timed_out username password = Inl (ExternalError ''timed out'')"

definition tacacs_timed_out ::
  "pyval \<Rightarrow> pyval \<Rightarrow> pyval \<Rightarrow> pyval \<Rightarrow> pyval \<Rightarrow> string \<Rightarrow> string \<Rightarrow> error + bool" where
  "tacacs_timed_out host port secret timeout protocol username password =
     Inl (ExternalError ''timed out'')"

definition licensed :: "string \<Rightarrow> bool" where
  "licensed feature = True"

definition unlicensed :: "string \<Rightarrow> bool" where
  "unlicensed feature = False"

definition saml_timed_out :: "string \<Rightarrow> error + user option" where
  "saml_timed_out response = Inl (ExternalError ''timed out'')"

definition get_user_timed_out :: "user \<Rightarrow> error + user option" where
  "get_user_timed_out user_id = Inl (ExternalError ''timed out'')"

section \<open>Rule evaluation\<close>

lemma for_group_dn_acc:
  "for_group_dn lu gs acc = (acc \<or> (\<exists>g. PStr g \<in> set gs \<and> is_member_of lu g))"
  by (induction lu gs acc rule: for_group_dn.induct) auto

text \<open>
  C3. A list rule evaluates to true exactly when the oracle reports membership in one of
  its string entries; entries that are not strings are skipped without an error, and the
  empty list is false. A single string is evaluated as the one-element list that holds
  it: true exactly when the oracle reports membership in it. The empty string is falsy,
  the shape of a rule that never holds, and evaluates to false; this agrees with the
  one-element list whenever the oracle reports no membership in the empty name.
\<close>

theorem any_of_rule:
  "should_add lu (PList gs) = Inr (\<exists>g. PStr g \<in> set gs \<and> is_member_of lu g)
   \<and> should_add lu (PList []) = Inr False
   \<and> (s \<noteq> [] \<or> \<not> is_member_of lu [] \<longrightarrow>
        should_add lu (PStr s) = Inr (is_member_of lu s)
        \<and> should_add lu (PStr s) = should_add lu (PList [PStr s]))
   \<and> should_add lu (PStr []) = Inr False"
  by (auto simp: should_add_def for_group_dn_acc)

theorem any_of_rule_witness:
  "should_add example_ldap_user (PList [PInt 7, PStr ''cn=admins,dc=x'']) = Inr True
   \<and> should_add example_ldap_user (PStr ''cn=qa,dc=x'') = Inr False
   \<and> should_add example_ldap_user (PStr ''cn=admins,dc=x'') = Inr True
   \<and> should_add example_ldap_user (PStr []) = should_add example_ldap_user (PList [PStr []])"
  using any_of_rule [of example_ldap_user "[PInt 7, PStr ''cn=admins,dc=x'']" "''cn=qa,dc=x''"]
    any_of_rule [of example_ldap_user "[]" "''cn=admins,dc=x''"]
    any_of_rule [of example_ldap_user "[]" "[]"]
  by (simp add: example_ldap_user_def)

section \<open>The profile's distinguished name\<close>

lemma for_items_preserves:
  assumes "\<And>e s s'. body e s = Inr s' \<Longrightarrow> f s' = f s"
    and "for_items body es s = Inr s'"
  shows "f s' = f s"
  using assms(2)
proof (induction es arbitrary: s)
  case Nil
  then show ?case by simp
next
  case (Cons e es)
  then obtain s1 where a: "body e s = Inr s1" and b: "for_items body es s1 = Inr s'"
    by (auto split: sum.splits)
  from Cons.IH[OF b] assms(1)[OF a] show ?case by simp
qed

lemma org_body_profile:
  "org_body u lu e s = Inr s' \<Longrightarrow>
     profile_ldap_dn s' = profile_ldap_dn s \<and> profile_saves s' = profile_saves s"
  by (auto simp: org_body_def Organization_get_or_create_def Let_def
      split: sum.splits option.splits prod.splits)

lemma team_body_profile:
  "team_body u lu e s = Inr s' \<Longrightarrow>
     profile_ldap_dn s' = profile_ldap_dn s \<and> profile_saves s' = profile_saves s"
  by (auto simp: team_body_def Organization_get_or_create_def Team_get_or_create_def Let_def
      split: sum.splits option.splits prod.splits)

lemma loops_profile:
  assumes "for_items (org_body u lu) om s = Inr s1"
    and "for_items (team_body u lu) tm s1 = Inr s2"
  shows "profile_ldap_dn s2 = profile_ldap_dn s \<and> profile_saves s2 = profile_saves s"
proof -
  let ?f = "\<lambda>s. (profile_ldap_dn s, profile_saves s)"
  have "?f s1 = ?f s"
    by (rule for_items_preserves[OF _ assms(1)]) (simp add: org_body_profile)
  moreover have "?f s2 = ?f s1"
    by (rule for_items_preserves[OF _ assms(2)]) (simp add: team_body_profile)
  ultimately show ?thesis by simp
qed

lemma on_populate_user_steps:
  assumes "on_populate_user user lu s = Inr s'"
  obtains s1 s2 where
    "for_items (org_body user lu) (dict_get (backend_ORGANIZATION_MAP lu) []) s = Inr s1"
    and "for_items (team_body user lu) (dict_get (backend_TEAM_MAP lu) []) s1 = Inr s2"
    and "s' = update_profile user lu s2"
  using assms by (auto simp: on_populate_user_def Let_def split: sum.splits)

lemmas example_defs =
  on_populate_user_def org_body_def team_body_def update_profile_def
  Organization_get_or_create_def Team_get_or_create_def update_m2m_from_groups_def
  should_add_def dict_get_def remove_admins_flag_def remove_users_flag_def remove_flag_def
  example_ldap_user_def example_db_def example_db_synced_def example_org_opts_def
  example_team_opts_def Let_def

lemma example_sync:
  "on_populate_user 1 example_ldap_user example_db = Inr example_db_synced"
  by (simp add: example_defs)

text \<open>
  C7. When a synchronisation returns, the profile's stored name has been written and
  saved (once, for this user) if it differed from the session's name; if the two were
  equal, the stored names and the list of saves are unchanged.
\<close>

theorem ldap_dn_written_iff_differs:
  assumes "on_populate_user user lu s = Inr s'"
  shows "(profile_ldap_dn s user \<noteq> dn lu \<longrightarrow>
            profile_ldap_dn s' = (profile_ldap_dn s)(user := dn lu)
            \<and> profile_saves s' = profile_saves s @ [user])
       \<and> (profile_ldap_dn s user = dn lu \<longrightarrow>
            profile_ldap_dn s' = profile_ldap_dn s \<and> profile_saves s' = profile_saves s)"
proof -
  from assms obtain s1 s2 where
    a: "for_items (org_body user lu) (dict_get (backend_ORGANIZATION_MAP lu) []) s = Inr s1"
    and b: "for_items (team_body user lu) (dict_get (backend_TEAM_MAP lu) []) s1 = Inr s2"
    and c: "s' = update_profile user lu s2"
    by (rule on_populate_user_steps)
  from loops_profile[OF a b] c show ?thesis
    by (simp add: update_profile_def)
qed

theorem ldap_dn_written_iff_differs_witness:
  "on_populate_user 1 example_ldap_user example_db = Inr example_db_synced
   \<and> profile_ldap_dn example_db 1 \<noteq> dn example_ldap_user
   \<and> profile_ldap_dn example_db_synced 1 = dn example_ldap_user
   \<and> profile_saves example_db_synced = profile_saves example_db @ [1]"
  using ldap_dn_written_iff_differs [OF example_sync] example_sync
  by (simp add: example_db_def example_ldap_user_def)

section \<open>Idempotence of the synchronisation\<close>

lemma update_m2m_idem:
  "update_m2m_from_groups u lu rel opts rm = Inr rel' \<Longrightarrow> update_m2m_from_groups u lu rel' opts rm = Inr rel'"
  by (auto simp: update_m2m_from_groups_def split: if_splits sum.splits)

lemma db_organizations_update_eq:
  "(s\<lparr>organizations := f\<rparr> = s) \<longleftrightarrow> organizations s = f"
  by (cases s) auto

lemma db_teams_update_eq:
  "(s\<lparr>teams := f\<rparr> = s) \<longleftrightarrow> teams s = f"
  by (cases s) auto

lemma org_body_Inr:
  "org_body u lu e s = Inr s' \<longleftrightarrow>
     (\<exists>a m. update_m2m_from_groups u lu (admin_role_members (fst (Organization_get_or_create (fst e) s)))
               (dict_get (opt_admins (snd e)) PNone) (remove_admins_flag (snd e)) = Inr a
          \<and> update_m2m_from_groups u lu (member_role_members (fst (Organization_get_or_create (fst e) s)))
               (dict_get (opt_users (snd e)) PNone) (remove_users_flag (snd e)) = Inr m
          \<and> s' = s\<lparr>organizations := (organizations s)(fst e \<mapsto>
                     \<lparr>admin_role_members = a, member_role_members = m\<rparr>)\<rparr>)"
proof (cases "organizations s (fst e)")
  case None
  then show ?thesis
    by (simp add: org_body_def Organization_get_or_create_def Let_def split: sum.splits) blast
next
  case (Some org)
  then show ?thesis
    by (simp add: org_body_def Organization_get_or_create_def Let_def split: sum.splits) blast
qed

lemma fun_upd_fixed: "(f = f(x := y)) \<longleftrightarrow> f x = y"
  by (metis fun_upd_idem_iff)

lemma org_body_fixed_iff:
  "org_body u lu e s = Inr s \<longleftrightarrow>
     (\<exists>org. organizations s (fst e) = Some org
        \<and> update_m2m_from_groups u lu (admin_role_members org) (dict_get (opt_admins (snd e)) PNone)
             (remove_admins_flag (snd e)) = Inr (admin_role_members org)
        \<and> update_m2m_from_groups u lu (member_role_members org) (dict_get (opt_users (snd e)) PNone)
             (remove_users_flag (snd e)) = Inr (member_role_members org))"
proof (cases "organizations s (fst e)")
  case None
  then show ?thesis
    by (auto simp: org_body_Inr eq_commute[of s] db_organizations_update_eq fun_upd_fixed)
next
  case (Some org)
  have "(org = \<lparr>admin_role_members = a, member_role_members = m\<rparr>)
        \<longleftrightarrow> (a = admin_role_members org \<and> m = member_role_members org)" for a m
    by (cases org) auto
  with Some show ?thesis
    by (simp add: org_body_Inr eq_commute[of s] db_organizations_update_eq fun_upd_fixed
        Organization_get_or_create_def)
qed

lemma org_body_idem:
  assumes "org_body u lu e s = Inr s'"
  shows "org_body u lu e s' = Inr s'"
proof -
  from assms obtain a m where
    a: "update_m2m_from_groups u lu (admin_role_members (fst (Organization_get_or_create (fst e) s)))
               (dict_get (opt_admins (snd e)) PNone) (remove_admins_flag (snd e)) = Inr a"
    and m: "update_m2m_from_groups u lu (member_role_members (fst (Organization_get_or_create (fst e) s)))
               (dict_get (opt_users (snd e)) PNone) (remove_users_flag (snd e)) = Inr m"
    and s': "s' = s\<lparr>organizations := (organizations s)(fst e \<mapsto>
                     \<lparr>admin_role_members = a, member_role_members = m\<rparr>)\<rparr>"
    unfolding org_body_Inr by blast
  show ?thesis
    unfolding org_body_fixed_iff
    using update_m2m_idem[OF a] update_m2m_idem[OF m] s' by simp
qed

lemma org_body_other:
  assumes "org_body u lu e s = Inr s'" and "n \<noteq> fst e"
  shows "organizations s' n = organizations s n"
  using assms unfolding org_body_Inr by auto

lemma org_body_pres:
  assumes "fst e \<noteq> fst e'" and "org_body u lu e s = Inr s" and "org_body u lu e' s = Inr s'"
  shows "org_body u lu e s' = Inr s'"
  using assms(2) org_body_other[OF assms(3) assms(1)]
  unfolding org_body_fixed_iff by simp

lemma team_body_Inr:
  "team_body u lu e s = Inr s' \<longleftrightarrow>
     (case opt_organization (snd e) of
        None \<Rightarrow> s' = s
      | Some org_name \<Rightarrow>
          (\<exists>m. update_m2m_from_groups u lu
                  (case teams s (fst e, org_name) of None \<Rightarrow> {} | Some t \<Rightarrow> t)
                  (dict_get (opt_users (snd e)) PNone)
                  (truthy (dict_get (opt_remove (snd e)) (PBool True))) = Inr m
             \<and> s' = (snd (Organization_get_or_create org_name s))
                      \<lparr>teams := (teams s)((fst e, org_name) \<mapsto> m)\<rparr>))"
  by (auto simp: team_body_def Organization_get_or_create_def Team_get_or_create_def Let_def
      split: option.splits sum.splits)

lemma team_body_orgs:
  assumes "team_body u lu e s = Inr s'" and "organizations s n = Some org"
  shows "organizations s' n = Some org"
  using assms unfolding team_body_Inr
  by (auto simp: Organization_get_or_create_def Let_def split: option.splits)

lemma team_body_other:
  assumes "team_body u lu e s = Inr s'" and "fst e \<noteq> tn"
  shows "teams s' (tn, on) = teams s (tn, on)"
  using assms unfolding team_body_Inr
  by (auto simp: Organization_get_or_create_def Let_def split: option.splits)

lemma db_orgs_teams_update_eq:
  "(s = s\<lparr>organizations := f, teams := g\<rparr>) \<longleftrightarrow> organizations s = f \<and> teams s = g"
  by (cases s) auto

lemma team_body_fixed_iff:
  "team_body u lu e s = Inr s \<longleftrightarrow>
     (case opt_organization (snd e) of
        None \<Rightarrow> True
      | Some org_name \<Rightarrow>
          organizations s org_name \<noteq> None
          \<and> (\<exists>m. teams s (fst e, org_name) = Some m
                \<and> update_m2m_from_groups u lu m (dict_get (opt_users (snd e)) PNone)
                     (truthy (dict_get (opt_remove (snd e)) (PBool True))) = Inr m))"
proof (cases "opt_organization (snd e)")
  case None
  then show ?thesis by (simp add: team_body_Inr)
next
  case (Some org_name)
  show ?thesis
  proof (cases "organizations s org_name")
    case None
    with Some show ?thesis
      by (auto simp: team_body_Inr Organization_get_or_create_def Let_def db_orgs_teams_update_eq
          fun_upd_fixed)
  next
    case org: (Some org)
    with Some show ?thesis
      by (auto simp: team_body_Inr Organization_get_or_create_def Let_def eq_commute[of s]
          db_teams_update_eq fun_upd_fixed)
  qed
qed

lemma team_body_idem:
  assumes "team_body u lu e s = Inr s'"
  shows "team_body u lu e s' = Inr s'"
proof (cases "opt_organization (snd e)")
  case None
  with assms show ?thesis by (simp add: team_body_Inr)
next
  case (Some org_name)
  with assms obtain m where
    m: "update_m2m_from_groups u lu (case teams s (fst e, org_name) of None \<Rightarrow> {} | Some t \<Rightarrow> t)
          (dict_get (opt_users (snd e)) PNone)
          (truthy (dict_get (opt_remove (snd e)) (PBool True))) = Inr m"
    and s': "s' = (snd (Organization_get_or_create org_name s))
                      \<lparr>teams := (teams s)((fst e, org_name) \<mapsto> m)\<rparr>"
    unfolding team_body_Inr by auto
  from s' have "organizations s' org_name \<noteq> None" "teams s' (fst e, org_name) = Some m"
    by (auto simp: Organization_get_or_create_def Let_def split: option.splits)
  with update_m2m_idem[OF m] Some show ?thesis
    unfolding team_body_fixed_iff by simp
qed

lemma team_body_pres:
  assumes "fst e \<noteq> fst e'" and "team_body u lu e s = Inr s" and "team_body u lu e' s = Inr s'"
  shows "team_body u lu e s' = Inr s'"
proof (cases "opt_organization (snd e)")
  case None
  then show ?thesis by (simp add: team_body_fixed_iff)
next
  case (Some org_name)
  with assms(2) obtain org m where
    o: "organizations s org_name = Some org" and t: "teams s (fst e, org_name) = Some m"
    and m: "update_m2m_from_groups u lu m (dict_get (opt_users (snd e)) PNone)
                     (truthy (dict_get (opt_remove (snd e)) (PBool True))) = Inr m"
    unfolding team_body_fixed_iff by auto
  from team_body_orgs[OF assms(3) o] team_body_other[OF assms(3), of "fst e" org_name] assms(1) t m Some
  show ?thesis
    unfolding team_body_fixed_iff by simp
qed

lemma team_body_pres_org:
  assumes "org_body u lu e s = Inr s" and "team_body u lu t s = Inr s'"
  shows "org_body u lu e s' = Inr s'"
  using assms(1) team_body_orgs[OF assms(2)]
  unfolding org_body_fixed_iff by auto

lemma for_items_invariant:
  assumes "\<And>e s s'. P s \<Longrightarrow> body e s = Inr s' \<Longrightarrow> P s'"
    and "P s" and "for_items body es s = Inr s'"
  shows "P s'"
  using assms(2,3)
proof (induction es arbitrary: s)
  case Nil
  then show ?case by simp
next
  case (Cons e es)
  then obtain s1 where a: "body e s = Inr s1" and b: "for_items body es s1 = Inr s'"
    by (auto split: sum.splits)
  from assms(1)[OF Cons.prems(1) a] Cons.IH b show ?case by blast
qed

lemma for_items_keeps_fixed:
  assumes pres: "\<And>e' s s'. e' \<in> set es \<Longrightarrow> body e s = Inr s \<Longrightarrow> body e' s = Inr s'
                  \<Longrightarrow> body e s' = Inr s'"
    and "body e s = Inr s" and "for_items body es s = Inr s'"
  shows "body e s' = Inr s'"
  using assms
proof (induction es arbitrary: s)
  case Nil
  then show ?case by simp
next
  case (Cons x xs)
  from Cons.prems(3) obtain s1 where a: "body x s = Inr s1" and b: "for_items body xs s1 = Inr s'"
    by (auto split: sum.splits)
  have "body e s1 = Inr s1"
    by (rule Cons.prems(1)[OF _ Cons.prems(2) a]) simp
  moreover have "body e t' = Inr t'"
    if "e' \<in> set xs" "body e t = Inr t" "body e' t = Inr t'" for e' t t'
    using Cons.prems(1)[of e' t t'] that by simp
  ultimately show ?case
    using Cons.IH b by blast
qed

lemma for_items_fixed:
  assumes idem: "\<And>e s s'. body e s = Inr s' \<Longrightarrow> body e s' = Inr s'"
    and pres: "\<And>e e' s s'. key e \<noteq> key e' \<Longrightarrow> body e s = Inr s \<Longrightarrow> body e' s = Inr s'
                  \<Longrightarrow> body e s' = Inr s'"
    and "distinct (map key es)" and "for_items body es s = Inr s'"
  shows "\<forall>e\<in>set es. body e s' = Inr s'"
  using assms(3,4)
proof (induction es arbitrary: s)
  case Nil
  then show ?case by simp
next
  case (Cons e es)
  then obtain s1 where a: "body e s = Inr s1" and b: "for_items body es s1 = Inr s'"
    by (auto split: sum.splits)
  from Cons.prems(1) have d: "distinct (map key es)" and n: "\<forall>x\<in>set es. key e \<noteq> key x"
    by auto
  have rest: "\<forall>x\<in>set es. body x s' = Inr s'"
    by (rule Cons.IH[OF d b])
  have f: "body e s1 = Inr s1" by (rule idem[OF a])
  have "body e s' = Inr s'"
  proof (rule for_items_keeps_fixed[where body=body and e=e and es=es and s=s1 and s'=s'])
    show "body e s1 = Inr s1" by (rule f)
  next
    show "for_items body es s1 = Inr s'" by (rule b)
  next
    fix e' t t'
    assume "e' \<in> set es" "body e t = Inr t" "body e' t = Inr t'"
    with n show "body e t' = Inr t'"
      using pres by blast
  qed
  with rest show ?case by simp
qed

lemma for_items_of_fixed:
  "\<forall>e\<in>set es. body e s = Inr s \<Longrightarrow> for_items body es s = Inr s"
  by (induction es) auto

lemma update_profile_idem:
  "update_profile u lu (update_profile u lu s) = update_profile u lu s"
  by (simp add: update_profile_def)

lemma update_profile_entities:
  "organizations (update_profile v lv s) = organizations s"
  "teams (update_profile v lv s) = teams s"
  by (simp_all add: update_profile_def)

lemma org_body_update_profile:
  "org_body u lu e s = Inr s \<Longrightarrow> org_body u lu e (update_profile v lv s) = Inr (update_profile v lv s)"
  unfolding org_body_fixed_iff by (simp add: update_profile_entities)

lemma team_body_update_profile:
  "team_body u lu e s = Inr s \<Longrightarrow> team_body u lu e (update_profile v lv s) = Inr (update_profile v lv s)"
  unfolding team_body_fixed_iff by (auto simp: update_profile_entities split: option.splits)

text \<open>
  C1. The items of a dict have distinct keys. When a synchronisation returns, a second
  one with the same session (oracle, name and mapping) returns the state the first one
  left: every membership set, every entity, the stored names and the list of profile
  saves are the same, so the second run adds no write.
\<close>

theorem sync_idempotent:
  assumes dorg: "distinct (map fst (dict_get (backend_ORGANIZATION_MAP lu) []))"
    and dteam: "distinct (map fst (dict_get (backend_TEAM_MAP lu) []))"
    and first: "on_populate_user user lu s = Inr s'"
  shows "on_populate_user user lu s' = Inr s'"
proof -
  let ?om = "dict_get (backend_ORGANIZATION_MAP lu) []"
  let ?tm = "dict_get (backend_TEAM_MAP lu) []"
  from first obtain s1 s2 where
    a: "for_items (org_body user lu) ?om s = Inr s1"
    and b: "for_items (team_body user lu) ?tm s1 = Inr s2"
    and c: "s' = update_profile user lu s2"
    by (rule on_populate_user_steps)
  have o1: "\<forall>e\<in>set ?om. org_body user lu e s1 = Inr s1"
    by (rule for_items_fixed[where key=fst, OF org_body_idem org_body_pres dorg a])
  have "\<forall>e\<in>set ?om. org_body user lu e s2 = Inr s2"
  proof (rule for_items_invariant[where P="\<lambda>s. \<forall>e\<in>set ?om. org_body user lu e s = Inr s"
        and body="team_body user lu" and es="?tm" and s=s1 and s'=s2])
    show "\<forall>e\<in>set ?om. org_body user lu e s1 = Inr s1" by (rule o1)
  next
    show "for_items (team_body user lu) ?tm s1 = Inr s2" by (rule b)
  next
    fix e t t'
    assume "\<forall>e\<in>set ?om. org_body user lu e t = Inr t" "team_body user lu e t = Inr t'"
    then show "\<forall>e\<in>set ?om. org_body user lu e t' = Inr t'"
      using team_body_pres_org by blast
  qed
  then have orgs: "\<forall>e\<in>set ?om. org_body user lu e s' = Inr s'"
    unfolding c by (simp add: org_body_update_profile)
  have "\<forall>e\<in>set ?tm. team_body user lu e s2 = Inr s2"
    by (rule for_items_fixed[where key=fst, OF team_body_idem team_body_pres dteam b])
  then have teams: "\<forall>e\<in>set ?tm. team_body user lu e s' = Inr s'"
    unfolding c by (simp add: team_body_update_profile)
  have "update_profile user lu s' = s'"
    unfolding c by (rule update_profile_idem)
  with for_items_of_fixed[where body="org_body user lu", OF orgs]
    for_items_of_fixed[where body="team_body user lu", OF teams] show ?thesis
    by (simp add: on_populate_user_def)
qed

lemma example_distinct:
  "distinct (map fst (dict_get (backend_ORGANIZATION_MAP example_ldap_user) []))"
  "distinct (map fst (dict_get (backend_TEAM_MAP example_ldap_user) []))"
  by (simp_all add: example_ldap_user_def dict_get_def)

theorem sync_idempotent_witness:
  "on_populate_user 1 example_ldap_user example_db = Inr example_db_synced
   \<and> on_populate_user 1 example_ldap_user example_db_synced = Inr example_db_synced"
  using sync_idempotent [OF example_distinct example_sync] example_sync by simp

section \<open>Default removal\<close>

lemma update_m2m_evaluates_false:
  assumes "opts \<noteq> PNone" and "should_add lu opts = Inr False"
  shows "update_m2m_from_groups u lu rel opts rm = Inr (if rm then rel - {u} else rel)"
  using assms by (simp add: update_m2m_from_groups_def)

lemma example_keep_sync:
  "org_body 1 example_outsider (''Engineering'', example_keep_opts) example_stale_db
     = Inr example_stale_db"
  by (simp add: org_body_fixed_iff example_stale_db_def example_keep_opts_def
      example_outsider_def update_m2m_from_groups_def should_add_def dict_get_def
      remove_admins_flag_def remove_users_flag_def remove_flag_def)

lemma example_stale_sync:
  "org_body 1 example_outsider (''Engineering'', example_org_opts) example_stale_db
     = Inr example_stale_db_synced"
  by (simp add: org_body_def Organization_get_or_create_def update_m2m_from_groups_def
      should_add_def dict_get_def remove_admins_flag_def remove_users_flag_def remove_flag_def
      example_outsider_def example_stale_db_def example_stale_db_synced_def example_org_opts_def
      Let_def insert_commute)

text \<open>
  C4. The \<open>remove\<close> flag of an organization entry is the truth value of the key
  \<open>remove\<close>, and true when the key is missing; the flags for administrators and for
  users are the truth value of their own key, and the \<open>remove\<close> flag when it is
  missing. A rule that is present, is not \<open>None\<close> and evaluates to false leaves the role
  with the members it had when fetched or created, less the user exactly when the
  role's flag is true. So, in an entry that sets none of the three keys, such a rule
  removes the user from that role's membership set.
\<close>

theorem remove_defaults:
  "remove_flag e = (case opt_remove e of None \<Rightarrow> True | Some v \<Rightarrow> truthy v)
   \<and> remove_admins_flag e
        = (case opt_remove_admins e of None \<Rightarrow> remove_flag e | Some v \<Rightarrow> truthy v)
   \<and> remove_users_flag e
        = (case opt_remove_users e of None \<Rightarrow> remove_flag e | Some v \<Rightarrow> truthy v)
   \<and> (org_body user lu (name, e) s = Inr s' \<longrightarrow>
        (\<forall>rule. opt_admins e = Some rule \<and> rule \<noteq> PNone \<and> should_add lu rule = Inr False \<longrightarrow>
           (\<exists>org. organizations s' name = Some org
              \<and> admin_role_members org
                  = (if remove_admins_flag e
                     then admin_role_members (fst (Organization_get_or_create name s)) - {user}
                     else admin_role_members (fst (Organization_get_or_create name s)))))
        \<and> (\<forall>rule. opt_users e = Some rule \<and> rule \<noteq> PNone \<and> should_add lu rule = Inr False \<longrightarrow>
           (\<exists>org. organizations s' name = Some org
              \<and> member_role_members org
                  = (if remove_users_flag e
                     then member_role_members (fst (Organization_get_or_create name s)) - {user}
                     else member_role_members (fst (Organization_get_or_create name s))))))
   \<and> (opt_remove e = None \<and> opt_remove_admins e = None \<and> opt_remove_users e = None
        \<and> org_body user lu (name, e) s = Inr s' \<longrightarrow>
          (\<forall>rule. opt_admins e = Some rule \<and> rule \<noteq> PNone \<and> should_add lu rule = Inr False \<longrightarrow>
             (\<exists>org. organizations s' name = Some org \<and> user \<notin> admin_role_members org))
        \<and> (\<forall>rule. opt_users e = Some rule \<and> rule \<noteq> PNone \<and> should_add lu rule = Inr False \<longrightarrow>
             (\<exists>org. organizations s' name = Some org \<and> user \<notin> member_role_members org)))"
proof -
  let ?fetched = "fst (Organization_get_or_create name s)"
  have f1: "remove_flag e = (case opt_remove e of None \<Rightarrow> True | Some v \<Rightarrow> truthy v)"
    by (simp add: remove_flag_def dict_get_def split: option.splits)
  have f2: "remove_admins_flag e
        = (case opt_remove_admins e of None \<Rightarrow> remove_flag e | Some v \<Rightarrow> truthy v)"
    by (simp add: remove_admins_flag_def dict_get_def split: option.splits)
  have f3: "remove_users_flag e
        = (case opt_remove_users e of None \<Rightarrow> remove_flag e | Some v \<Rightarrow> truthy v)"
    by (simp add: remove_users_flag_def dict_get_def split: option.splits)
  have admins: "\<exists>org. organizations s' name = Some org
              \<and> admin_role_members org
                  = (if remove_admins_flag e then admin_role_members ?fetched - {user}
                     else admin_role_members ?fetched)"
    if run: "org_body user lu (name, e) s = Inr s'"
      and rule: "opt_admins e = Some rule \<and> rule \<noteq> PNone \<and> should_add lu rule = Inr False"
    for rule
  proof -
    from run obtain a m where
      a: "update_m2m_from_groups user lu (admin_role_members ?fetched)
            (dict_get (opt_admins e) PNone) (remove_admins_flag e) = Inr a"
      and s': "s' = s\<lparr>organizations := (organizations s)(name \<mapsto>
                     \<lparr>admin_role_members = a, member_role_members = m\<rparr>)\<rparr>"
      unfolding org_body_Inr by auto
    from rule have "dict_get (opt_admins e) PNone = rule" by (simp add: dict_get_def)
    with a rule have "a = (if remove_admins_flag e then admin_role_members ?fetched - {user}
                     else admin_role_members ?fetched)"
      by (simp add: update_m2m_evaluates_false)
    with s' show ?thesis by simp
  qed
  have users: "\<exists>org. organizations s' name = Some org
              \<and> member_role_members org
                  = (if remove_users_flag e then member_role_members ?fetched - {user}
                     else member_role_members ?fetched)"
    if run: "org_body user lu (name, e) s = Inr s'"
      and rule: "opt_users e = Some rule \<and> rule \<noteq> PNone \<and> should_add lu rule = Inr False"
    for rule
  proof -
    from run obtain a m where
      m: "update_m2m_from_groups user lu (member_role_members ?fetched)
            (dict_get (opt_users e) PNone) (remove_users_flag e) = Inr m"
      and s': "s' = s\<lparr>organizations := (organizations s)(name \<mapsto>
                     \<lparr>admin_role_members = a, member_role_members = m\<rparr>)\<rparr>"
      unfolding org_body_Inr by auto
    from rule have "dict_get (opt_users e) PNone = rule" by (simp add: dict_get_def)
    with m rule have "m = (if remove_users_flag e then member_role_members ?fetched - {user}
                     else member_role_members ?fetched)"
      by (simp add: update_m2m_evaluates_false)
    with s' show ?thesis by simp
  qed
  have c4: "org_body user lu (name, e) s = Inr s' \<longrightarrow>
        (\<forall>rule. opt_admins e = Some rule \<and> rule \<noteq> PNone \<and> should_add lu rule = Inr False \<longrightarrow>
           (\<exists>org. organizations s' name = Some org
              \<and> admin_role_members org
                  = (if remove_admins_flag e then admin_role_members ?fetched - {user}
                     else admin_role_members ?fetched)))
        \<and> (\<forall>rule. opt_users e = Some rule \<and> rule \<noteq> PNone \<and> should_add lu rule = Inr False \<longrightarrow>
           (\<exists>org. organizations s' name = Some org
              \<and> member_role_members org
                  = (if remove_users_flag e then member_role_members ?fetched - {user}
                     else member_role_members ?fetched)))"
  proof (intro impI conjI allI)
    fix rule
    assume "org_body user lu (name, e) s = Inr s'"
      and "opt_admins e = Some rule \<and> rule \<noteq> PNone \<and> should_add lu rule = Inr False"
    then show "\<exists>org. organizations s' name = Some org
              \<and> admin_role_members org
                  = (if remove_admins_flag e then admin_role_members ?fetched - {user}
                     else admin_role_members ?fetched)"
      by (rule admins)
  next
    fix rule
    assume "org_body user lu (name, e) s = Inr s'"
      and "opt_users e = Some rule \<and> rule \<noteq> PNone \<and> should_add lu rule = Inr False"
    then show "\<exists>org. organizations s' name = Some org
              \<and> member_role_members org
                  = (if remove_users_flag e then member_role_members ?fetched - {user}
                     else member_role_members ?fetched)"
      by (rule users)
  qed
  have c5: "opt_remove e = None \<and> opt_remove_admins e = None \<and> opt_remove_users e = None
        \<and> org_body user lu (name, e) s = Inr s' \<longrightarrow>
          (\<forall>rule. opt_admins e = Some rule \<and> rule \<noteq> PNone \<and> should_add lu rule = Inr False \<longrightarrow>
             (\<exists>org. organizations s' name = Some org \<and> user \<notin> admin_role_members org))
        \<and> (\<forall>rule. opt_users e = Some rule \<and> rule \<noteq> PNone \<and> should_add lu rule = Inr False \<longrightarrow>
             (\<exists>org. organizations s' name = Some org \<and> user \<notin> member_role_members org))"
  proof (intro impI conjI allI)
    fix rule
    assume d: "opt_remove e = None \<and> opt_remove_admins e = None \<and> opt_remove_users e = None
        \<and> org_body user lu (name, e) s = Inr s'"
      and r: "opt_admins e = Some rule \<and> rule \<noteq> PNone \<and> should_add lu rule = Inr False"
    from d f1 f2 have "remove_admins_flag e" by simp
    with admins[OF _ r] d show "\<exists>org. organizations s' name = Some org \<and> user \<notin> admin_role_members org"
      by auto
  next
    fix rule
    assume d: "opt_remove e = None \<and> opt_remove_admins e = None \<and> opt_remove_users e = None
        \<and> org_body user lu (name, e) s = Inr s'"
      and r: "opt_users e = Some rule \<and> rule \<noteq> PNone \<and> should_add lu rule = Inr False"
    from d f1 f3 have "remove_users_flag e" by simp
    with users[OF _ r] d show "\<exists>org. organizations s' name = Some org \<and> user \<notin> member_role_members org"
      by auto
  qed
  show ?thesis
    by (intro conjI f1 f2 f3 c4 c5)
qed

theorem remove_defaults_witness:
  "remove_flag example_org_opts \<and> remove_admins_flag example_org_opts
   \<and> remove_users_flag example_org_opts
   \<and> \<not> remove_flag example_keep_opts \<and> \<not> remove_admins_flag example_keep_opts
   \<and> remove_users_flag example_keep_opts
   \<and> org_body 1 example_outsider (''Engineering'', example_org_opts) example_stale_db
        = Inr example_stale_db_synced
   \<and> (\<exists>org. organizations example_stale_db_synced ''Engineering'' = Some org
          \<and> 1 \<notin> admin_role_members org)
   \<and> org_body 1 example_outsider (''Engineering'', example_keep_opts) example_stale_db
        = Inr example_stale_db
   \<and> (\<exists>org. organizations example_stale_db ''Engineering'' = Some org
          \<and> admin_role_members org = {1, 2})"
proof -
  note default = remove_defaults [of example_org_opts 1 example_outsider "''Engineering''"
      example_stale_db example_stale_db_synced]
  note keep = remove_defaults [of example_keep_opts 1 example_outsider "''Engineering''"
      example_stale_db example_stale_db]
  have flags_default: "remove_flag example_org_opts \<and> remove_admins_flag example_org_opts
      \<and> remove_users_flag example_org_opts"
    using default [THEN conjunct1] default [THEN conjunct2, THEN conjunct1]
      default [THEN conjunct2, THEN conjunct2, THEN conjunct1]
    by (simp add: example_org_opts_def)
  have flags_keep: "\<not> remove_flag example_keep_opts \<and> \<not> remove_admins_flag example_keep_opts
      \<and> remove_users_flag example_keep_opts"
    using keep [THEN conjunct1] keep [THEN conjunct2, THEN conjunct1]
      keep [THEN conjunct2, THEN conjunct2, THEN conjunct1]
    by (simp add: example_keep_opts_def)
  have r: "opt_admins example_org_opts = Some (PList [PInt 7, PStr ''cn=admins,dc=x''])
      \<and> PList [PInt 7, PStr ''cn=admins,dc=x''] \<noteq> PNone
      \<and> should_add example_outsider (PList [PInt 7, PStr ''cn=admins,dc=x'']) = Inr False"
    by (simp add: example_org_opts_def should_add_def example_outsider_def)
  have d: "opt_remove example_org_opts = None \<and> opt_remove_admins example_org_opts = None
      \<and> opt_remove_users example_org_opts = None
      \<and> org_body 1 example_outsider (''Engineering'', example_org_opts) example_stale_db
          = Inr example_stale_db_synced"
    using example_stale_sync by (simp add: example_org_opts_def)
  have removed: "\<exists>org. organizations example_stale_db_synced ''Engineering'' = Some org
          \<and> 1 \<notin> admin_role_members org"
    by (rule default [THEN conjunct2, THEN conjunct2, THEN conjunct2, THEN conjunct2,
          THEN mp, OF d, THEN conjunct1, THEN spec, THEN mp, OF r])
  have r': "opt_admins example_keep_opts = Some (PStr ''cn=admins,dc=x'')
      \<and> PStr ''cn=admins,dc=x'' \<noteq> PNone
      \<and> should_add example_outsider (PStr ''cn=admins,dc=x'') = Inr False"
    by (simp add: example_keep_opts_def should_add_def example_outsider_def)
  from keep [THEN conjunct2, THEN conjunct2, THEN conjunct2, THEN conjunct1, THEN mp,
      OF example_keep_sync, THEN conjunct1, THEN spec, THEN mp, OF r']
  obtain org where o: "organizations example_stale_db ''Engineering'' = Some org"
    and a: "admin_role_members org =
       (if remove_admins_flag example_keep_opts
        then admin_role_members
               (fst (Organization_get_or_create ''Engineering'' example_stale_db)) - {1}
        else admin_role_members
               (fst (Organization_get_or_create ''Engineering'' example_stale_db)))"
    by blast
  have "admin_role_members (fst (Organization_get_or_create ''Engineering'' example_stale_db))
          = {1, 2}"
    by (simp add: Organization_get_or_create_def example_stale_db_def)
  with a flags_keep have "admin_role_members org = {1, 2}" by simp
  with o have kept: "\<exists>org. organizations example_stale_db ''Engineering'' = Some org
          \<and> admin_role_members org = {1, 2}"
    by blast
  from flags_default flags_keep example_stale_sync removed example_keep_sync kept
  show ?thesis by (intro conjI) (elim conjE, assumption)+
qed

section \<open>Absent rules\<close>

lemma example_stale_team_opts:
  "org_body 1 example_ldap_user (''Engineering'', example_team_opts) example_stale_db
     = Inr example_stale_db"
  by (simp add: org_body_fixed_iff example_stale_db_def example_team_opts_def
      example_ldap_user_def update_m2m_from_groups_def should_add_def dict_get_def
      remove_admins_flag_def remove_users_flag_def remove_flag_def)

text \<open>
  C2. A rule that is absent (\<open>opts is None\<close>: the key is missing or its value is
  \<open>None\<close>) leaves the role's membership set exactly as it was, with no add and no
  remove, whatever the \<open>remove\<close> flag and the oracle are. So after an organization entry
  is processed the administrators (the members) of the organization are those it had
  when fetched or created, and after a team entry the members of the team are.
\<close>

theorem absent_rule_unchanged:
  "update_m2m_from_groups user lu rel PNone rm = Inr rel
   \<and> (dict_get (opt_admins e) PNone = PNone \<and> org_body user lu (name, e) s = Inr s' \<longrightarrow>
        (\<exists>org. organizations s' name = Some org
           \<and> admin_role_members org
               = admin_role_members (fst (Organization_get_or_create name s))))
   \<and> (dict_get (opt_users e) PNone = PNone \<and> org_body user lu (name, e) s = Inr s' \<longrightarrow>
        (\<exists>org. organizations s' name = Some org
           \<and> member_role_members org
               = member_role_members (fst (Organization_get_or_create name s))))
   \<and> (dict_get (opt_users e) PNone = PNone \<and> opt_organization e = Some org_name
        \<and> team_body user lu (name, e) s = Inr s' \<longrightarrow>
        teams s' (name, org_name) = Some (fst (Team_get_or_create name org_name s)))"
  by (auto simp: update_m2m_from_groups_def org_body_Inr team_body_Inr Team_get_or_create_def
      split: option.splits)

theorem absent_rule_unchanged_witness:
  "dict_get (opt_admins example_team_opts) PNone = PNone
   \<and> org_body 1 example_ldap_user (''Engineering'', example_team_opts) example_stale_db
        = Inr example_stale_db
   \<and> (\<exists>org. organizations example_stale_db ''Engineering'' = Some org
          \<and> admin_role_members org = {1, 2})"
  using absent_rule_unchanged [of 1 example_ldap_user "{}" True example_team_opts
      "''Engineering''" example_stale_db example_stale_db "''Engineering''"]
    example_stale_team_opts
  by (simp add: example_team_opts_def dict_get_def Organization_get_or_create_def
      example_stale_db_def)

section \<open>The settings object\<close>

text \<open>
  C8. When the connection options of the composed configuration have no entry for the
  network timeout, the constructed settings object has the same options with the
  timeout set to 30; when they have one, the object is the composed configuration
  unchanged. The default is applied by the constructor: reading \<open>settings\<close> constructs
  the object when none is cached and returns a cached object as it is.
\<close>

theorem network_timeout_default:
  "(dict_get (CONNECTION_OPTIONS base) Map.empty t = None \<longrightarrow>
      LDAPSettings_init t base
        = base\<lparr>CONNECTION_OPTIONS :=
                 Some ((dict_get (CONNECTION_OPTIONS base) Map.empty)(t \<mapsto> PInt 30))\<rparr>)
   \<and> (dict_get (CONNECTION_OPTIONS base) Map.empty t \<noteq> None \<longrightarrow>
        LDAPSettings_init t base = base)
   \<and> (self_settings self = None \<longrightarrow>
        fst (get_settings t B self) = LDAPSettings_init t (B settings_prefix))
   \<and> (\<forall>st. self_settings self = Some st \<longrightarrow> get_settings t B self = (st, self))"
  by (simp add: LDAPSettings_init_def get_settings_def Let_def)

theorem network_timeout_default_witness:
  "CONNECTION_OPTIONS (LDAPSettings_init 20485 (example_base settings_prefix))
     = Some [8 \<mapsto> PInt 0, 20485 \<mapsto> PInt 30]
   \<and> LDAPSettings_init 20485 example_base_with_timeout = example_base_with_timeout
   \<and> fst (get_settings 20485 example_base \<lparr>self_settings = None\<rparr>)
        = LDAPSettings_init 20485 (example_base settings_prefix)
   \<and> get_settings 20485 example_base \<lparr>self_settings = Some example_base_with_timeout\<rparr>
        = (example_base_with_timeout, \<lparr>self_settings = Some example_base_with_timeout\<rparr>)"
  using network_timeout_default [of "example_base settings_prefix" 20485 "\<lparr>self_settings = None\<rparr>" example_base]
    network_timeout_default [of example_base_with_timeout 20485 "\<lparr>self_settings = Some example_base_with_timeout\<rparr>" example_base]
  by (simp add: example_base_def example_base_with_timeout_def dict_get_def)

text \<open>
  C9. A change notification whose setting name starts with \<open>AUTH_LDAP_\<close> sets the
  cached settings to \<open>None\<close> (rebuilt on the next access); a notification for any other
  name, or without a name, leaves the backend unchanged.
\<close>

theorem setting_changed_invalidates:
  "(prefix ''AUTH_LDAP_'' name \<longrightarrow>
      on_setting_changed self (Some name) = self\<lparr>self_settings := None\<rparr>)
   \<and> (\<not> prefix ''AUTH_LDAP_'' name \<longrightarrow> on_setting_changed self (Some name) = self)
   \<and> on_setting_changed self None = self"
  by (simp add: on_setting_changed_def settings_prefix_def dict_get_def)

theorem setting_changed_invalidates_witness:
  "on_setting_changed \<lparr>self_settings = Some example_base_with_timeout\<rparr> (Some ''AUTH_LDAP_SERVER_URI'')
     = \<lparr>self_settings = None\<rparr>
   \<and> on_setting_changed \<lparr>self_settings = Some example_base_with_timeout\<rparr> (Some ''RADIUS_SERVER'')
     = \<lparr>self_settings = Some example_base_with_timeout\<rparr>"
  using setting_changed_invalidates [of "''AUTH_LDAP_SERVER_URI''" "\<lparr>self_settings = Some example_base_with_timeout\<rparr>"]
    setting_changed_invalidates [of "''RADIUS_SERVER''" "\<lparr>self_settings = Some example_base_with_timeout\<rparr>"]
  by simp

section \<open>Gating and exceptions of the backends\<close>

lemma User_get_None: "pk \<notin> fst ` set users \<Longrightarrow> User_get pk users = None"
  by (induction users) (auto simp: User_get_def)

lemma User_get_Some:
  "pk \<in> fst ` set users \<Longrightarrow>
     \<exists>row. User_get pk users = Some (pk, row) \<and> (pk, row) \<in> set users"
  by (induction users) (auto simp: User_get_def)

text \<open>
  C10. With a host configured and the feature licensed, \<open>get_user\<close> of the TACACS+
  backend returns the row of the local user table with that key when there is one and
  \<open>None\<close> when there is none, never an exception; its only event is the licence check,
  so the external client is not called.
\<close>

theorem tacacs_get_user_local:
  "truthy (TACACSPLUS_HOST ds) \<and> fe ''enterprise_auth'' \<longrightarrow>
     tacacs_get_user ds fe users user_id
       = (Inr (User_get user_id users), [FeatureEnabled ''enterprise_auth''])
     \<and> (user_id \<notin> fst ` set users \<longrightarrow> User_get user_id users = None)
     \<and> (user_id \<in> fst ` set users \<longrightarrow>
          (\<exists>row. User_get user_id users = Some (user_id, row) \<and> (user_id, row) \<in> set users))"
  using User_get_None[of user_id users] User_get_Some[of user_id users]
  by (simp add: tacacs_get_user_def split: option.splits)

theorem tacacs_get_user_local_witness:
  "tacacs_get_user example_configured licensed example_users 2
     = (Inr (Some (2, \<lparr>u_username = ''bob'', u_is_superuser = True, u_unusable_password = False\<rparr>)),
        [FeatureEnabled ''enterprise_auth''])
   \<and> tacacs_get_user example_configured licensed example_users 3
     = (Inr None, [FeatureEnabled ''enterprise_auth''])"
  using tacacs_get_user_local [of example_configured licensed example_users 2]
    tacacs_get_user_local [of example_configured licensed example_users 3]
  by (simp add: example_configured_def example_users_def User_get_def licensed_def)

text \<open>
  C6. For each of the four backends, \<open>authenticate\<close> and \<open>get_user\<close> return \<open>None\<close>
  with no event at all (no licence check, no external call, no log) when the required
  configuration is missing; when it is present and the feature is not licensed they
  return \<open>None\<close> after the licence check and one error log, with no external call.
\<close>

theorem gating_order:
  "(\<not> truthy (SERVER_URI (fst (get_settings t B self))) \<longrightarrow>
      fst (ldap_authenticate t B fe sa self username password) = (Inr None, [])
      \<and> fst (ldap_get_user t B fe sg self user_id) = (Inr None, []))
   \<and> (truthy (SERVER_URI (fst (get_settings t B self))) \<and> \<not> fe ''ldap'' \<longrightarrow>
      fst (ldap_authenticate t B fe sa self username password)
        = (Inr None, [FeatureEnabled ''ldap'',
             LogError ''Unable to authenticate, license does not support LDAP authentication''])
      \<and> fst (ldap_get_user t B fe sg self user_id)
        = (Inr None, [FeatureEnabled ''ldap'',
             LogError ''Unable to get_user, license does not support LDAP authentication'']))
   \<and> (\<not> truthy (RADIUS_SERVER ds) \<longrightarrow>
      radius_authenticate ds fe sa username password = (Inr None, [])
      \<and> radius_get_user ds fe sg user_id = (Inr None, []))
   \<and> (truthy (RADIUS_SERVER ds) \<and> \<not> fe ''enterprise_auth'' \<longrightarrow>
      radius_authenticate ds fe sa username password
        = (Inr None, [FeatureEnabled ''enterprise_auth'',
             LogError ''Unable to authenticate, license does not support RADIUS authentication''])
      \<and> radius_get_user ds fe sg user_id
        = (Inr None, [FeatureEnabled ''enterprise_auth'',
             LogError ''Unable to get_user, license does not support RADIUS authentication'']))
   \<and> (\<not> truthy (TACACSPLUS_HOST ds) \<longrightarrow>
      tacacs_authenticate ds fe client users username password = ((Inr None, []), users)
      \<and> tacacs_get_user ds fe users user_id = (Inr None, []))
   \<and> (truthy (TACACSPLUS_HOST ds) \<and> \<not> fe ''enterprise_auth'' \<longrightarrow>
      tacacs_authenticate ds fe client users username password
        = ((Inr None, [FeatureEnabled ''enterprise_auth'',
             LogError ''Unable to authenticate, license does not support TACACS+ authentication'']),
           users)
      \<and> tacacs_get_user ds fe users user_id
        = (Inr None, [FeatureEnabled ''enterprise_auth'',
             LogError ''Unable to get user, license does not support TACACS+ authentication'']))
   \<and> (\<not> saml_configured ds \<longrightarrow>
      saml_authenticate ds fe ssa args = (Inr None, [])
      \<and> saml_get_user ds fe sg user_id = (Inr None, []))
   \<and> (saml_configured ds \<and> \<not> fe ''enterprise_auth'' \<longrightarrow>
      saml_authenticate ds fe ssa args
        = (Inr None, [FeatureEnabled ''enterprise_auth'',
             LogError ''Unable to authenticate, license does not support SAML authentication''])
      \<and> saml_get_user ds fe sg user_id
        = (Inr None, [FeatureEnabled ''enterprise_auth'',
             LogError ''Unable to get_user, license does not support SAML authentication'']))"
  by (simp add: ldap_authenticate_def ldap_get_user_def radius_authenticate_def
      radius_get_user_def tacacs_authenticate_def tacacs_get_user_def saml_authenticate_def
      saml_get_user_def split: prod.splits)

theorem gating_order_witness:
  "fst (ldap_authenticate 20485 example_base_unconfigured licensed timed_out
          \<lparr>self_settings = None\<rparr> ''alice'' ''password'') = (Inr None, [])
   \<and> radius_authenticate example_unconfigured licensed timed_out ''alice'' ''password''
        = (Inr None, [])
   \<and> tacacs_authenticate example_unconfigured licensed tacacs_timed_out example_users
        ''alice'' ''password'' = ((Inr None, []), example_users)
   \<and> saml_authenticate example_unconfigured licensed saml_timed_out
        ''response'' = (Inr None, [])
   \<and> fst (ldap_get_user 20485 example_base unlicensed get_user_timed_out
          \<lparr>self_settings = None\<rparr> 1)
        = (Inr None, [FeatureEnabled ''ldap'',
             LogError ''Unable to get_user, license does not support LDAP authentication''])
   \<and> radius_authenticate example_configured unlicensed timed_out ''alice'' ''password''
        = (Inr None, [FeatureEnabled ''enterprise_auth'',
             LogError ''Unable to authenticate, license does not support RADIUS authentication''])
   \<and> tacacs_get_user example_configured unlicensed example_users 1
        = (Inr None, [FeatureEnabled ''enterprise_auth'',
             LogError ''Unable to get user, license does not support TACACS+ authentication''])
   \<and> saml_get_user example_configured unlicensed get_user_timed_out 1
        = (Inr None, [FeatureEnabled ''enterprise_auth'',
             LogError ''Unable to get_user, license does not support SAML authentication''])"
  using gating_order [where t=20485 and B=example_base_unconfigured and fe=licensed
      and sa=timed_out and self="\<lparr>self_settings = None\<rparr>" and username="''alice''"
      and password="''password''" and ds=example_unconfigured and client=tacacs_timed_out
      and users=example_users and ssa=saml_timed_out and args="''response''"
      and sg=get_user_timed_out and user_id=1]
    gating_order [where t=20485 and B=example_base and fe=unlicensed
      and sa=timed_out and self="\<lparr>self_settings = None\<rparr>" and username="''alice''"
      and password="''password''" and ds=example_configured and client=tacacs_timed_out
      and users=example_users and ssa=saml_timed_out and args="''response''"
      and sg=get_user_timed_out and user_id=1]
  by (simp add: get_settings_def LDAPSettings_init_def example_base_def
      example_base_unconfigured_def example_configured_def example_unconfigured_def
      saml_configured_def dict_get_def Let_def licensed_def unlicensed_def)

text \<open>
  C5, as the code has it. The Directory and the TACACS+ backend catch an exception of
  the external client in \<open>authenticate\<close>, log it and return \<open>None\<close>; neither ever
  raises one. The RADIUS and the SAML backend, once configured and licensed, return
  whatever the base class's \<open>authenticate\<close> does, an exception included.
\<close>

theorem authenticate_exceptions:
  "(truthy (SERVER_URI (fst (get_settings t B self))) \<and> fe ''ldap''
      \<and> sa username password = Inl e \<longrightarrow>
      fst (ldap_authenticate t B fe sa self username password)
        = (Inr None, [FeatureEnabled ''ldap'', ExternalCall,
             LogException ''Encountered an error authenticating to LDAP'']))
   \<and> (\<exists>r. fst (fst (ldap_authenticate t B fe sa self username password)) = Inr r)
   \<and> (truthy (TACACSPLUS_HOST ds) \<and> fe ''enterprise_auth''
      \<and> client (TACACSPLUS_HOST ds) (TACACSPLUS_PORT ds) (TACACSPLUS_SECRET ds)
           (TACACSPLUS_SESSION_TIMEOUT ds) (TACACSPLUS_AUTH_PROTOCOL ds) username password
         = Inl e \<longrightarrow>
      tacacs_authenticate ds fe client users username password
        = ((Inr None, [FeatureEnabled ''enterprise_auth'', ExternalCall,
             LogException (''TACACS+ Authentication Error: '' @ message e)]), users))
   \<and> (\<exists>r. fst (fst (tacacs_authenticate ds fe client users username password)) = Inr r)
   \<and> (truthy (RADIUS_SERVER ds) \<and> fe ''enterprise_auth'' \<longrightarrow>
      radius_authenticate ds fe sa username password
        = (sa username password, [FeatureEnabled ''enterprise_auth'', ExternalCall]))
   \<and> (saml_configured ds \<and> fe ''enterprise_auth'' \<longrightarrow>
      saml_authenticate ds fe ssa args
        = (ssa args, [FeatureEnabled ''enterprise_auth'', ExternalCall]))"
  by (simp add: ldap_authenticate_def radius_authenticate_def tacacs_authenticate_def
      saml_authenticate_def split: prod.splits sum.splits)

theorem authenticate_exceptions_witness:
  "fst (ldap_authenticate 20485 example_base licensed timed_out
          \<lparr>self_settings = None\<rparr> ''alice'' ''password'')
     = (Inr None, [FeatureEnabled ''ldap'', ExternalCall,
          LogException ''Encountered an error authenticating to LDAP''])
   \<and> tacacs_authenticate example_configured licensed tacacs_timed_out example_users
        ''alice'' ''password''
     = ((Inr None, [FeatureEnabled ''enterprise_auth'', ExternalCall,
          LogException ''TACACS+ Authentication Error: timed out'']), example_users)"
  using authenticate_exceptions [where t=20485 and B=example_base and fe=licensed
      and sa=timed_out and self="\<lparr>self_settings = None\<rparr>" and username="''alice''"
      and password="''password''" and ds=example_configured and client=tacacs_timed_out
      and users=example_users and e="ExternalError ''timed out''"
      and ssa=saml_timed_out and args="''response''"]
  by (simp add: get_settings_def LDAPSettings_init_def example_base_def
      example_configured_def dict_get_def Let_def timed_out_def tacacs_timed_out_def
      licensed_def)

text \<open>
  C5, as stated, fails for RADIUS and SAML: an exception of the base class leaves
  \<open>authenticate\<close> as it is, with no log.
\<close>

theorem radius_saml_exception_counterexample:
  "radius_authenticate example_configured licensed timed_out ''alice'' ''password''
     = (Inl (ExternalError ''timed out''), [FeatureEnabled ''enterprise_auth'', ExternalCall])
   \<and> saml_authenticate example_configured licensed saml_timed_out ''response''
     = (Inl (ExternalError ''timed out''), [FeatureEnabled ''enterprise_auth'', ExternalCall])"
  by (simp add: radius_authenticate_def saml_authenticate_def saml_configured_def
      example_configured_def timed_out_def saml_timed_out_def licensed_def)

end
